theory Spec2Isabelle
  imports Main
begin

section \<open>Syntax trees and node handles\<close>

text \<open>
  The parser hands \<^verbatim>\<open>validate.ts\<close> a read-only tree. A \<open>tree\<close> is one parsed node: its
  grammar type, its source text, whether the grammar names it, and its children in
  source order. A \<open>SyntaxNode\<close> is a handle on one node of a tree, as the parser's
  binding gives it: the node together with its position, that is the handle of its
  parent (\<open>None\<close> at the root) and the sibling trees before and after it. Two handles
  are equal exactly when they stand at the same position of the same tree.
\<close>

datatype tree = Tree (ttype: string) (ttext: string) (tnamed: bool) (tkids: "tree list")

datatype SyntaxNode =
  SyntaxNode (up: "SyntaxNode option") (before: "tree list") (here: tree) (after: "tree list")

definition node_type :: "SyntaxNode \<Rightarrow> string" where
  "node_type n = ttype (here n)"

definition node_text :: "SyntaxNode \<Rightarrow> string" where
  "node_text n = ttext (here n)"

definition isNamed :: "SyntaxNode \<Rightarrow> bool" where
  "isNamed n = tnamed (here n)"

definition rootNode :: "tree \<Rightarrow> SyntaxNode" where
  "rootNode t = SyntaxNode None [] t []"

text \<open>\<open>locate p bs ts\<close> hands out the handles of the trees \<open>ts\<close>, which stand under the
  parent \<open>p\<close> after the trees \<open>bs\<close>.\<close>

fun locate :: "SyntaxNode option \<Rightarrow> tree list \<Rightarrow> tree list \<Rightarrow> SyntaxNode list" where
  "locate p bs [] = []"
| "locate p bs (t # ts) = SyntaxNode p bs t ts # locate p (bs @ [t]) ts"

definition children :: "SyntaxNode \<Rightarrow> SyntaxNode list" where
  "children n = locate (Some n) [] (tkids (here n))"

definition namedChildren :: "SyntaxNode \<Rightarrow> SyntaxNode list" where
  "namedChildren n = filter isNamed (children n)"

definition lastOf :: "'a list \<Rightarrow> 'a option" where
  "lastOf xs = (case xs of [] \<Rightarrow> None | _ # _ \<Rightarrow> Some (last xs))"

definition firstOf :: "'a list \<Rightarrow> 'a option" where
  "firstOf xs = (case xs of [] \<Rightarrow> None | x # _ \<Rightarrow> Some x)"

definition lastChild :: "SyntaxNode \<Rightarrow> SyntaxNode option" where
  "lastChild n = lastOf (children n)"

definition lastNamedChild :: "SyntaxNode \<Rightarrow> SyntaxNode option" where
  "lastNamedChild n = lastOf (namedChildren n)"

definition followingSiblings :: "SyntaxNode \<Rightarrow> SyntaxNode list" where
  "followingSiblings n = locate (up n) (before n @ [here n]) (after n)"

definition precedingSiblings :: "SyntaxNode \<Rightarrow> SyntaxNode list" where
  "precedingSiblings n = take (length (before n)) (locate (up n) [] (before n @ here n # after n))"

definition nextNamedSibling :: "SyntaxNode \<Rightarrow> SyntaxNode option" where
  "nextNamedSibling n = firstOf (filter isNamed (followingSiblings n))"

text \<open>JavaScript's \<open>a || b\<close> on values that are an object or \<open>null\<close>.\<close>

definition orElse :: "'a option \<Rightarrow> 'a option \<Rightarrow> 'a option" where
  "orElse a b = (case a of Some x \<Rightarrow> Some x | None \<Rightarrow> b)"

subsection \<open>Strings\<close>

text \<open>\<open>s.startsWith(p)\<close>, \<open>s.endsWith(p)\<close> and \<open>s.includes(p)\<close> of JavaScript.\<close>

fun startsWith :: "string \<Rightarrow> string \<Rightarrow> bool" where
  "startsWith s [] = True"
| "startsWith [] (p # ps) = False"
| "startsWith (c # cs) (p # ps) = (c = p \<and> startsWith cs ps)"

definition endsWith :: "string \<Rightarrow> string \<Rightarrow> bool" where
  "endsWith s p = startsWith (rev s) (rev p)"

fun str_includes :: "string \<Rightarrow> string \<Rightarrow> bool" where
  "str_includes [] p = (p = [])"
| "str_includes (c # cs) p = (startsWith (c # cs) p \<or> str_includes cs p)"

section \<open>Documents and diagnostics\<close>

record LspDocument =
  isAutoLoaded :: bool
  getAutoLoadName :: string

datatype ErrorCode =
    missingEnd | extraEnd | syntaxError | unreachableCode
  | duplicateFunctionName | missingAutoloadedFunctionName | privateHelperFunction
  | universalVariable | pathVariable | pathFlag

datatype Diagnostic = Diagnostic (code: ErrorCode) (anchor: SyntaxNode)

text \<open>
  Modelled from the spec: \<^verbatim>\<open>createDiagnostic\<close> of \<^verbatim>\<open>diagnostics/create\<close> and the code table
  \<^verbatim>\<open>diagnostics/errorCodes\<close> are not among the sources. The spec describes an opaque
  factory from a node, a code of the closed enumeration and an optional document to a
  diagnostic record; range, severity and message are rendered outside. The record kept
  here is the code and the node the diagnostic is anchored on.
\<close>

definition createDiagnostic :: "SyntaxNode \<Rightarrow> ErrorCode \<Rightarrow> LspDocument option \<Rightarrow> Diagnostic" where
  "createDiagnostic node c doc = Diagnostic c node"

text \<open>
  The node predicates of \<^verbatim>\<open>utils/node-types\<close> and \<^verbatim>\<open>findFirstSibling\<close> of
  \<^verbatim>\<open>utils/tree-sitter\<close> are imported by \<^verbatim>\<open>validate.ts\<close> but are not among the sources.
  Every function below takes them as the parameter \<open>nt\<close>.
\<close>

record node_types =
  isCommandName :: "SyntaxNode \<Rightarrow> bool"
  isConditionalCommand :: "SyntaxNode \<Rightarrow> bool"
  isEnd :: "SyntaxNode \<Rightarrow> bool"
  isError :: "SyntaxNode \<Rightarrow> bool"
  isFunctionDefinition :: "SyntaxNode \<Rightarrow> bool"
  isFunctionDefinitionName :: "SyntaxNode \<Rightarrow> bool"
  isReturn :: "SyntaxNode \<Rightarrow> bool"
  isStatement :: "SyntaxNode \<Rightarrow> bool"
  isVariableDefinition :: "SyntaxNode \<Rightarrow> bool"
  findFirstSibling :: "SyntaxNode \<Rightarrow> (SyntaxNode \<Rightarrow> bool) \<Rightarrow> SyntaxNode option"

section \<open>Block balance\<close>

definition isMissingEnd :: "node_types \<Rightarrow> SyntaxNode \<Rightarrow> Diagnostic option" where
  "isMissingEnd nt node =
     (let last = (case orElse (lastChild node) (lastNamedChild node) of
                    Some l \<Rightarrow> l | None \<Rightarrow> node)
      in if isError nt node \<and> \<not> isEnd nt last
         then Some (createDiagnostic node missingEnd None)
         else None)"

definition isExtraEnd :: "node_types \<Rightarrow> SyntaxNode \<Rightarrow> Diagnostic option" where
  "isExtraEnd nt node =
     (if isCommandName nt node \<and> node_text node = ''end''
      then Some (createDiagnostic node extraEnd None)
      else None)"

definition isSyntaxError :: "node_types \<Rightarrow> SyntaxNode \<Rightarrow> Diagnostic option \<Rightarrow> Diagnostic option" where
  "isSyntaxError nt node diagnostic =
     (if \<not> isError nt node \<or> diagnostic \<noteq> None then diagnostic
      else if isError nt node then Some (createDiagnostic node syntaxError None)
      else None)"

definition collectEndError :: "node_types \<Rightarrow> SyntaxNode \<Rightarrow> Diagnostic list \<Rightarrow> bool \<times> Diagnostic list" where
  "collectEndError nt node diagnostics =
     (let endError = orElse (isMissingEnd nt node) (isExtraEnd nt node);
          endError = isSyntaxError nt node endError
      in case endError of
           Some d \<Rightarrow> (True, diagnostics @ [d])
         | None \<Rightarrow> (False, diagnostics))"

section \<open>Sizes of handles\<close>

text \<open>The recursions over a tree descend from a handle to the handles of its children;
  they end because the tree under a child is smaller.\<close>

definition weight :: "SyntaxNode list \<Rightarrow> nat" where
  "weight ns = sum_list (map (\<lambda>n. size (here n)) ns)"

lemma here_locate: "map here (locate p bs ts) = ts"
  by (induction ts arbitrary: bs) simp_all

lemma weight_Cons: "weight (n # ns) = size (here n) + weight ns"
  by (simp add: weight_def)

lemma size_tree_pos: "0 < size (t :: tree)"
  by (cases t) simp

lemma sum_list_size_kids: "sum_list (map size (tkids t)) < size t"
proof (cases t)
  case (Tree ty tx nm ks)
  have "sum_list (map size ks) \<le> size_list size ks"
    by (induction ks) simp_all
  with Tree show ?thesis by simp
qed

lemma weight_children: "weight (children n) < size (here n)"
proof -
  have "map (\<lambda>c. size (here c)) (children n) = map size (map here (children n))"
    by simp
  also have "\<dots> = map size (tkids (here n))"
    unfolding children_def here_locate ..
  finally show ?thesis
    by (simp add: weight_def sum_list_size_kids)
qed

lemma weight_filter: "weight (filter P ns) \<le> weight ns"
  by (induction ns) (simp_all add: weight_def)

lemma weight_namedChildren: "weight (namedChildren n) < size (here n)"
  using weight_filter [of isNamed "children n"] weight_children [of n]
  by (simp add: namedChildren_def)

section \<open>Reachability: exhaustive returns\<close>

text \<open>
  \<open>completeStatementCoverage\<close> returns its verdict and the collection it pushed to.
  Its loop over \<open>root.namedChildren\<close> is \<open>coverageLoop\<close>: the verdict \<open>None\<close> is the
  early \<open>return false\<close> from inside the loop, \<open>Some shouldReturn\<close> is the loop running
  to its end.
\<close>

function completeStatementCoverage :: "node_types \<Rightarrow> SyntaxNode \<Rightarrow> SyntaxNode list \<Rightarrow> bool \<times> SyntaxNode list"
  and coverageLoop :: "node_types \<Rightarrow> SyntaxNode list \<Rightarrow> bool \<Rightarrow> SyntaxNode list \<Rightarrow> bool option \<times> SyntaxNode list"
where
  "completeStatementCoverage nt root collection =
     (case coverageLoop nt (namedChildren root) (isReturn nt root) collection of
        (None, collection') \<Rightarrow> (False, collection')
      | (Some shouldReturn, collection') \<Rightarrow>
          (shouldReturn, if shouldReturn then collection' @ [root] else collection'))"
| "coverageLoop nt [] shouldReturn collection = (Some shouldReturn, collection)"
| "coverageLoop nt (child # rest) shouldReturn collection =
     (case completeStatementCoverage nt child collection of
        (covered, collection') \<Rightarrow>
          (let incl = (covered \<or> isReturn nt child)
           in if isStatement nt child \<and> \<not> incl then (None, collection')
              else coverageLoop nt rest (incl \<or> shouldReturn) collection'))"
  by pat_completeness auto
termination
proof (relation "measure (\<lambda>x. case x of
          Inl (nt, root, collection) \<Rightarrow> 2 * size (here root)
        | Inr (nt, ns, shouldReturn, collection) \<Rightarrow> 2 * weight ns + 1)", goal_cases)
  case 1
  show ?case by simp
next
  case (2 nt root collection)
  show ?case using weight_namedChildren [of root] by simp
next
  case (3 nt child rest shouldReturn collection)
  show ?case by (simp add: weight_Cons)
next
  case (4 nt child rest shouldReturn collection x xa y)
  show ?case using size_tree_pos [of "here child"] by (simp add: weight_Cons)
qed

fun scopesLoop :: "node_types \<Rightarrow> LspDocument \<Rightarrow> SyntaxNode list \<Rightarrow> bool \<Rightarrow> Diagnostic list \<Rightarrow> bool \<times> Diagnostic list" where
  "scopesLoop nt doc [] hasRets diagnostic = (hasRets, diagnostic)"
| "scopesLoop nt doc (statement # rest) hasRets diagnostic =
     (if hasRets
      then scopesLoop nt doc rest hasRets
             (diagnostic @ [createDiagnostic statement unreachableCode (Some doc)])
      else if node_type statement \<noteq> ''if_statement''
      then scopesLoop nt doc rest hasRets diagnostic
      else scopesLoop nt doc rest (fst (completeStatementCoverage nt statement [])) diagnostic)"

definition collectFunctionsScopes :: "node_types \<Rightarrow> SyntaxNode \<Rightarrow> LspDocument \<Rightarrow> Diagnostic list \<Rightarrow> bool \<times> Diagnostic list" where
  "collectFunctionsScopes nt node doc diagnostic =
     (if \<not> isFunctionDefinition nt node then (False, diagnostic)
      else scopesLoop nt doc (filter (isStatement nt) (namedChildren node)) False diagnostic)"

section \<open>Function names\<close>

text \<open>
  The set \<open>functionNames\<close> is passed in and returned. \<open>functionNames.size === 0\<close> is
  written \<open>functionNames = {}\<close>. \<open>needsAutoloadName\<close> is computed once, before any of the
  three branches runs.
\<close>

definition collectFunctionNames :: "node_types \<Rightarrow> SyntaxNode \<Rightarrow> LspDocument \<Rightarrow> Diagnostic list \<Rightarrow> string set \<Rightarrow> bool \<times> Diagnostic list \<times> string set" where
  "collectFunctionNames nt node doc diagnostics functionNames =
     (let name = node_text node in
      if \<not> isFunctionDefinitionName nt node then (False, diagnostics, functionNames)
      else
        let needsAutoloadName =
              (isAutoLoaded doc \<and> name \<noteq> getAutoLoadName doc
               \<and> name \<notin> functionNames \<and> functionNames = {});
            s1 = (if name \<in> functionNames
                  then (True,
                        diagnostics @ [createDiagnostic node duplicateFunctionName None],
                        insert name functionNames)
                  else (False, diagnostics, functionNames));
            s2 = (if needsAutoloadName
                  then (True,
                        fst (snd s1) @ [createDiagnostic node missingAutoloadedFunctionName None],
                        insert name (snd (snd s1)))
                  else s1);
            s3 = (if \<not> needsAutoloadName \<and> \<not> startsWith name ''_''
                  then (True,
                        fst (snd s2) @ [createDiagnostic node privateHelperFunction None],
                        insert name (snd (snd s2)))
                  else s2)
        in s3)"

section \<open>Variable definitions\<close>

text \<open>\<open>isUniveralOption\<close> is the closure of \<open>findVariableFlagsIfSeen\<close>, with the two
  option lists it captures as arguments.\<close>

definition isUniveralOption :: "string list \<Rightarrow> string list \<Rightarrow> SyntaxNode \<Rightarrow> bool" where
  "isUniveralOption shortOpts longOpts n =
     (if startsWith (node_text n) ''--''
      then list_ex (\<lambda>opt. node_text n = ''--'' @ opt) longOpts
      else if \<not> startsWith (node_text n) ''--'' \<and> startsWith (node_text n) ''-''
      then list_ex (\<lambda>short. str_includes (node_text n) short) shortOpts
      else False)"

definition findVariableFlagsIfSeen :: "node_types \<Rightarrow> SyntaxNode \<Rightarrow> string list \<Rightarrow> string list \<Rightarrow> SyntaxNode option" where
  "findVariableFlagsIfSeen nt node shortOpts longOpts =
     (if \<not> isVariableDefinition nt node then None
      else findFirstSibling nt node (isUniveralOption shortOpts longOpts))"

text \<open>The statement \<open>if (!isVariableDefinition(node)) null;\<close> at the head of
  \<open>getPathVariable\<close> has no effect and is left out.\<close>

definition getPathVariable :: "node_types \<Rightarrow> SyntaxNode \<Rightarrow> LspDocument \<Rightarrow> string set \<Rightarrow> Diagnostic option \<times> string set" where
  "getPathVariable nt node document seen =
     (let flagNode = findVariableFlagsIfSeen nt node [] [''path'', ''unpath''];
          s1 = (if flagNode = None \<and> endsWith (node_text node) ''PATH''
                then (Some (createDiagnostic node pathVariable (Some document)),
                      insert (node_text node) seen)
                else (None, seen));
          s2 = (if flagNode \<noteq> None \<and> \<not> endsWith (node_text node) ''PATH''
                then (Some (createDiagnostic node pathFlag (Some document)),
                      insert (node_text node) (snd s1))
                else s1)
      in s2)"

definition getUniversalVariable :: "node_types \<Rightarrow> SyntaxNode \<Rightarrow> LspDocument \<Rightarrow> string set \<Rightarrow> Diagnostic option \<times> string set" where
  "getUniversalVariable nt node document seen =
     (if \<not> isVariableDefinition nt node then (None, seen)
      else case findVariableFlagsIfSeen nt node [''u''] [''universal''] of
             None \<Rightarrow> (None, seen)
           | Some univeralFlag \<Rightarrow>
               (Some (createDiagnostic univeralFlag universalVariable (Some document)),
                insert (node_text node) seen))"

text \<open>\<open>getUniversalVariable(..) || getPathVariable(..)\<close>: the second call runs only when
  the first returned \<open>null\<close>.\<close>

definition collectVariableNames :: "node_types \<Rightarrow> SyntaxNode \<Rightarrow> LspDocument \<Rightarrow> Diagnostic list \<Rightarrow> string set \<Rightarrow> bool \<times> Diagnostic list \<times> string set" where
  "collectVariableNames nt node document diagnostics varsSeen =
     (if \<not> isVariableDefinition nt node then (False, diagnostics, varsSeen)
      else case getUniversalVariable nt node document varsSeen of
             (Some d, seen1) \<Rightarrow> (True, diagnostics @ [d], seen1)
           | (None, seen1) \<Rightarrow>
               (case getPathVariable nt node document seen1 of
                  (Some d, seen2) \<Rightarrow> (True, diagnostics @ [d], seen2)
                | (None, seen2) \<Rightarrow> (False, diagnostics, seen2)))"

section \<open>Reachability: trailing chain\<close>

lemma after_locate: "m \<in> set (locate p bs ts) \<Longrightarrow> length (after m) < length ts"
proof (induction ts arbitrary: bs)
  case Nil
  then show ?case by simp
next
  case (Cons t ts)
  from Cons.prems have "m = SyntaxNode p bs t ts \<or> m \<in> set (locate p (bs @ [t]) ts)"
    by simp
  then show ?case
  proof
    assume "m = SyntaxNode p bs t ts"
    then show ?thesis by simp
  next
    assume "m \<in> set (locate p (bs @ [t]) ts)"
    then have "length (after m) < length ts" by (rule Cons.IH)
    then show ?thesis by simp
  qed
qed

lemma after_nextNamedSibling:
  assumes "nextNamedSibling n = Some m"
  shows "length (after m) < length (after n)"
proof -
  from assms have "\<exists>ms. filter isNamed (followingSiblings n) = m # ms"
    by (auto simp: nextNamedSibling_def firstOf_def split: list.splits)
  then obtain ms where "filter isNamed (followingSiblings n) = m # ms" ..
  then have "m \<in> set (filter isNamed (followingSiblings n))"
    by simp
  then have "m \<in> set (locate (up n) (before n @ [here n]) (after n))"
    by (simp add: followingSiblings_def)
  then show ?thesis by (rule after_locate)
qed

text \<open>The \<open>while (currentNode)\<close> loop of \<open>collectReturnError\<close>.\<close>

function siblingsLoop :: "node_types \<Rightarrow> SyntaxNode option \<Rightarrow> SyntaxNode list \<Rightarrow> SyntaxNode list" where
  "siblingsLoop nt None siblings = siblings"
| "siblingsLoop nt (Some currentNode) siblings =
     (if isStatement nt currentNode then siblings
      else siblingsLoop nt (nextNamedSibling currentNode) (siblings @ [currentNode]))"
  by pat_completeness auto
termination
proof (relation "measure (\<lambda>(nt, c, siblings).
          case c of None \<Rightarrow> 0 | Some n \<Rightarrow> Suc (length (after n)))", goal_cases)
  case 1
  show ?case by simp
next
  case (2 nt currentNode siblings)
  show ?case
    using after_nextNamedSibling [of currentNode]
    by (cases "nextNamedSibling currentNode") simp_all
qed

text \<open>The \<open>for (const sibling of siblings)\<close> loop of \<open>collectReturnError\<close>.\<close>

fun chainLoop :: "node_types \<Rightarrow> SyntaxNode list \<Rightarrow> bool \<Rightarrow> Diagnostic list \<Rightarrow> Diagnostic list" where
  "chainLoop nt [] stillChaining diagnostic = diagnostic"
| "chainLoop nt (sibling # rest) stillChaining diagnostic =
     (if \<not> stillChaining
      then chainLoop nt rest stillChaining
             (diagnostic @ [createDiagnostic sibling unreachableCode None])
      else if stillChaining \<and> isConditionalCommand nt sibling
      then chainLoop nt rest True diagnostic
      else if stillChaining \<and> \<not> isConditionalCommand nt sibling
      then chainLoop nt rest False
             (diagnostic @ [createDiagnostic sibling unreachableCode None])
      else chainLoop nt rest stillChaining diagnostic)"

definition collectReturnError :: "node_types \<Rightarrow> SyntaxNode \<Rightarrow> Diagnostic list \<Rightarrow> bool \<times> Diagnostic list" where
  "collectReturnError nt node diagnostic =
     (if isReturn nt node then (False, diagnostic)
      else (True, chainLoop nt (siblingsLoop nt (Some node) []) True diagnostic))"

section \<open>The walk\<close>

text \<open>
  \<open>detectors\<close> is the first statement of \<open>collectAllDiagnostics\<close>, the chain
  \<open>collectEndError(..) || collectFunctionNames(..) || collectVariableNames(..) ||
  collectFunctionsScopes(..) || collectReturnError(..)\<close>: each call runs only when all
  before it returned \<open>false\<close>, on the lists and sets they left.
\<close>

definition detectors :: "node_types \<Rightarrow> SyntaxNode \<Rightarrow> LspDocument \<Rightarrow> Diagnostic list \<Rightarrow> string set \<Rightarrow> string set \<Rightarrow> bool \<times> Diagnostic list \<times> string set \<times> string set" where
  "detectors nt root doc diagnostics functionNames variableNames =
     (case collectEndError nt root diagnostics of (r1, d1) \<Rightarrow>
      if r1 then (True, d1, functionNames, variableNames) else
      case collectFunctionNames nt root doc d1 functionNames of (r2, d2, fs) \<Rightarrow>
      if r2 then (True, d2, fs, variableNames) else
      case collectVariableNames nt root doc d2 variableNames of (r3, d3, vs) \<Rightarrow>
      if r3 then (True, d3, fs, vs) else
      case collectFunctionsScopes nt root doc d3 of (r4, d4) \<Rightarrow>
      if r4 then (True, d4, fs, vs) else
      case collectReturnError nt root d4 of (r5, d5) \<Rightarrow> (r5, d5, fs, vs))"

function collectAllDiagnostics :: "node_types \<Rightarrow> SyntaxNode \<Rightarrow> LspDocument \<Rightarrow> Diagnostic list \<Rightarrow> string set \<Rightarrow> string set \<Rightarrow> bool \<times> Diagnostic list \<times> string set \<times> string set"
  and childrenLoop :: "node_types \<Rightarrow> SyntaxNode list \<Rightarrow> LspDocument \<Rightarrow> bool \<Rightarrow> Diagnostic list \<Rightarrow> string set \<Rightarrow> string set \<Rightarrow> bool \<times> Diagnostic list \<times> string set \<times> string set"
where
  "collectAllDiagnostics nt root doc diagnostics functionNames variableNames =
     (case detectors nt root doc diagnostics functionNames variableNames of
        (shouldAdd, ds, fs, vs) \<Rightarrow> childrenLoop nt (children root) doc shouldAdd ds fs vs)"
| "childrenLoop nt [] doc shouldAdd ds fs vs = (shouldAdd \<or> False, ds, fs, vs)"
| "childrenLoop nt (node # rest) doc shouldAdd ds fs vs =
     (case collectAllDiagnostics nt node doc ds fs vs of
        (shouldAdd', ds', fs', vs') \<Rightarrow> childrenLoop nt rest doc shouldAdd' ds' fs' vs')"
  by pat_completeness auto
termination
proof (relation "measure (\<lambda>x. case x of
          Inl (nt, root, rest) \<Rightarrow> 2 * size (here root)
        | Inr (nt, ns, rest) \<Rightarrow> 2 * weight ns + 1)", goal_cases)
  case 1
  show ?case by simp
next
  case (2 nt root)
  show ?case using weight_children [of root] by simp
next
  case (3 nt node rest doc shouldAdd ds fs vs)
  show ?case by (simp add: weight_Cons)
next
  case 4
  show ?case using size_tree_pos by (simp add: weight_Cons)
qed

definition collectDiagnosticsRecursive :: "node_types \<Rightarrow> SyntaxNode \<Rightarrow> LspDocument \<Rightarrow> Diagnostic list" where
  "collectDiagnosticsRecursive nt root doc = fst (snd (collectAllDiagnostics nt root doc [] {} {}))"

section \<open>The node predicates of the fish grammar\<close>

text \<open>
  Modelled from the spec: the module \<^verbatim>\<open>utils/node-types\<close> (\<open>isCommandName\<close>,
  \<open>isConditionalCommand\<close>, \<open>isEnd\<close>, \<open>isError\<close>, \<open>isFunctionDefinition\<close>,
  \<open>isFunctionDefinitionName\<close>, \<open>isReturn\<close>, \<open>isStatement\<close>, \<open>isVariableDefinition\<close>) and
  \<open>findFirstSibling\<close> of \<^verbatim>\<open>utils/tree-sitter\<close> are missing from the sources. The spec
  tags every node with a type of a closed set (command, function definition, if
  statement, else clause, switch statement, case clause, return statement, variable
  definition, error); the type names are those of the grammar that \<^verbatim>\<open>validate.ts\<close>
  itself compares with (\<open>"if_statement"\<close>) and names in its comments.
  \<^item> A statement, the boundary of the trailing-chain scan, is a block construct: an if,
    switch, for, while or begin statement.
  \<^item> A conditional continuation is a command joined to its predecessor by a
    conjunction or disjunction: a \<open>conditional_execution\<close> node.
  \<^item> A command name is the word that leads a command node; a bare \<open>end\<close> that closes
    no construct is parsed as a command of that name.
  \<^item> A function-definition name is the word that is the first named child of a
    function definition.
  \<^item> A variable definition is the name a \<open>set\<close> command defines: its first argument
    that is not an option, as in \<open>set -U MYVAR 1\<close> and \<open>set --path OTHER value\<close>.
  \<^item> \<open>findFirstSibling\<close> looks for the flag among the siblings of the definition:
    it walks the siblings before the node, the nearest first, and returns the first
    that satisfies the predicate.
\<close>

definition isCommand :: "SyntaxNode \<Rightarrow> bool" where
  "isCommand n = (node_type n = ''command'')"

definition isSetVariableName :: "SyntaxNode \<Rightarrow> bool" where
  "isSetVariableName n =
     (case up n of
        None \<Rightarrow> False
      | Some p \<Rightarrow>
          isCommand p \<and> node_type n = ''word'' \<and> \<not> startsWith (node_text n) ''-''
          \<and> (case before n of
                [] \<Rightarrow> False
              | c # opts \<Rightarrow> ttext c = ''set'' \<and> list_all (\<lambda>t. startsWith (ttext t) ''-'') opts))"

definition fish :: node_types where
  "fish = \<lparr>
     isCommandName = (\<lambda>n. case up n of
        None \<Rightarrow> False
      | Some p \<Rightarrow> isCommand p \<and> node_type n = ''word'' \<and> before n = []),
     isConditionalCommand = (\<lambda>n. node_type n = ''conditional_execution''),
     isEnd = (\<lambda>n. node_type n = ''end''),
     isError = (\<lambda>n. node_type n = ''ERROR''),
     isFunctionDefinition = (\<lambda>n. node_type n = ''function_definition''),
     isFunctionDefinitionName = (\<lambda>n. case up n of
        None \<Rightarrow> False
      | Some p \<Rightarrow> node_type p = ''function_definition'' \<and> node_type n = ''word''
                  \<and> isNamed n \<and> filter tnamed (before n) = []),
     isReturn = (\<lambda>n. node_type n = ''return''),
     isStatement = (\<lambda>n. node_type n \<in> set [''for_statement'', ''switch_statement'',
        ''while_statement'', ''if_statement'', ''begin_statement'']),
     isVariableDefinition = isSetVariableName,
     findFirstSibling = (\<lambda>n P. firstOf (filter P (rev (precedingSiblings n))))
   \<rparr>"

subsection \<open>Example trees\<close>

definition tok :: "string \<Rightarrow> tree" where
  "tok s = Tree s s False []"

definition word :: "string \<Rightarrow> tree" where
  "word s = Tree ''word'' s True []"

definition plainDoc :: LspDocument where
  "plainDoc = \<lparr> isAutoLoaded = False, getAutoLoadName = [] \<rparr>"

text \<open>\<open>function f; if true; return 0; end; if false; echo hi; end; end\<close>\<close>

definition ifReturn :: tree where
  "ifReturn = Tree ''if_statement'' ''if true; return 0; end'' True
     [tok ''if'', Tree ''command'' ''true'' True [word ''true''], tok '';'',
      Tree ''return'' ''return 0'' True [tok ''return'', Tree ''integer'' ''0'' True []],
      tok '';'', tok ''end'']"

definition ifEcho :: tree where
  "ifEcho = Tree ''if_statement'' ''if false; echo hi; end'' True
     [tok ''if'', Tree ''command'' ''false'' True [word ''false''], tok '';'',
      Tree ''command'' ''echo hi'' True [word ''echo'', word ''hi''],
      tok '';'', tok ''end'']"

definition funIfReturn :: tree where
  "funIfReturn = Tree ''function_definition''
     ''function f; if true; return 0; end; if false; echo hi; end; end'' True
     [tok ''function'', word ''f'', tok '';'', ifReturn, tok '';'', ifEcho, tok '';'',
      tok ''end'']"

text \<open>\<open>echo a; and echo b; echo c\<close>\<close>

definition chainProgram :: tree where
  "chainProgram = Tree ''program'' ''echo a; and echo b; echo c'' True
     [Tree ''command'' ''echo a'' True [word ''echo'', word ''a''], tok '';'',
      Tree ''conditional_execution'' ''and echo b'' True
        [tok ''and'', Tree ''command'' ''echo b'' True [word ''echo'', word ''b'']],
      tok '';'',
      Tree ''command'' ''echo c'' True [word ''echo'', word ''c'']]"

definition echoA :: SyntaxNode where
  "echoA = children (rootNode chainProgram) ! 0"

definition andEchoB :: SyntaxNode where
  "andEchoB = children (rootNode chainProgram) ! 2"

definition echoC :: SyntaxNode where
  "echoC = children (rootNode chainProgram) ! 4"

text \<open>\<open>function foo; end; function foo; end\<close>: two definitions of one name.\<close>

definition fooDef :: tree where
  "fooDef = Tree ''function_definition'' ''function foo; end'' True
     [tok ''function'', word ''foo'', tok '';'', tok ''end'']"

definition twoFoo :: tree where
  "twoFoo = Tree ''program'' ''function foo; end; function foo; end'' True
     [fooDef, tok '';'', fooDef]"

definition secondFoo :: SyntaxNode where
  "secondFoo = children (children (rootNode twoFoo) ! 2) ! 1"

text \<open>\<open>function _foo; end; function bar; end\<close> in the file that autoloads \<open>_foo\<close>.\<close>

definition underFooDoc :: LspDocument where
  "underFooDoc = \<lparr> isAutoLoaded = True, getAutoLoadName = ''_foo'' \<rparr>"

definition underFooBar :: tree where
  "underFooBar = Tree ''program'' ''function _foo; end; function bar; end'' True
     [Tree ''function_definition'' ''function _foo; end'' True
        [tok ''function'', word ''_foo'', tok '';'', tok ''end''],
      tok '';'',
      Tree ''function_definition'' ''function bar; end'' True
        [tok ''function'', word ''bar'', tok '';'', tok ''end'']]"

definition underFooName :: SyntaxNode where
  "underFooName = children (children (rootNode underFooBar) ! 0) ! 1"

definition barName :: SyntaxNode where
  "barName = children (children (rootNode underFooBar) ! 2) ! 1"

text \<open>\<open>set -U MYVAR 1\<close>, \<open>set -u MYVAR 1\<close> and \<open>set --universal MYPATH /bin\<close>\<close>

definition setUpperU :: tree where
  "setUpperU = Tree ''program'' ''set -U MYVAR 1'' True
     [Tree ''command'' ''set -U MYVAR 1'' True
        [word ''set'', word ''-U'', word ''MYVAR'', Tree ''integer'' ''1'' True []]]"

definition upperUFlag :: SyntaxNode where
  "upperUFlag = children (children (rootNode setUpperU) ! 0) ! 1"

definition upperUName :: SyntaxNode where
  "upperUName = children (children (rootNode setUpperU) ! 0) ! 2"

definition setLowerU :: tree where
  "setLowerU = Tree ''program'' ''set -u MYVAR 1'' True
     [Tree ''command'' ''set -u MYVAR 1'' True
        [word ''set'', word ''-u'', word ''MYVAR'', Tree ''integer'' ''1'' True []]]"

definition lowerUFlag :: SyntaxNode where
  "lowerUFlag = children (children (rootNode setLowerU) ! 0) ! 1"

definition lowerUName :: SyntaxNode where
  "lowerUName = children (children (rootNode setLowerU) ! 0) ! 2"

definition setUniversalPath :: tree where
  "setUniversalPath = Tree ''program'' ''set --universal MYPATH /bin'' True
     [Tree ''command'' ''set --universal MYPATH /bin'' True
        [word ''set'', word ''--universal'', word ''MYPATH'', word ''/bin'']]"

definition universalFlag :: SyntaxNode where
  "universalFlag = children (children (rootNode setUniversalPath) ! 0) ! 1"

definition myPathName :: SyntaxNode where
  "myPathName = children (children (rootNode setUniversalPath) ! 0) ! 2"

text \<open>\<open>if true; echo hi; end\<close>: the \<open>end\<close> that closes the if statement.\<close>

definition ifEnd :: tree where
  "ifEnd = Tree ''program'' ''if true; echo hi; end'' True
     [Tree ''if_statement'' ''if true; echo hi; end'' True
        [tok ''if'', Tree ''command'' ''true'' True [word ''true''], tok '';'',
         Tree ''command'' ''echo hi'' True [word ''echo'', word ''hi''], tok '';'',
         tok ''end'']]"

definition closingEnd :: SyntaxNode where
  "closingEnd = children (children (rootNode ifEnd) ! 0) ! 5"

definition ifReturnNode :: SyntaxNode where
  "ifReturnNode = children (rootNode funIfReturn) ! 3"

definition ifEchoNode :: SyntaxNode where
  "ifEchoNode = children (rootNode funIfReturn) ! 5"

text \<open>\<open>function _foo; end; function _foo; end\<close>: two definitions of one private name.\<close>

definition twoUnderFoo :: tree where
  "twoUnderFoo = Tree ''program'' ''function _foo; end; function _foo; end'' True
     [Tree ''function_definition'' ''function _foo; end'' True
        [tok ''function'', word ''_foo'', tok '';'', tok ''end''],
      tok '';'',
      Tree ''function_definition'' ''function _foo; end'' True
        [tok ''function'', word ''_foo'', tok '';'', tok ''end'']]"

text \<open>\<open>set MY_PATH value\<close> and \<open>set --path OTHER value\<close>\<close>

definition setMyPath :: tree where
  "setMyPath = Tree ''program'' ''set MY_PATH value'' True
     [Tree ''command'' ''set MY_PATH value'' True
        [word ''set'', word ''MY_PATH'', word ''value'']]"

definition myUnderPathName :: SyntaxNode where
  "myUnderPathName = children (children (rootNode setMyPath) ! 0) ! 1"

definition setPathOther :: tree where
  "setPathOther = Tree ''program'' ''set --path OTHER value'' True
     [Tree ''command'' ''set --path OTHER value'' True
        [word ''set'', word ''--path'', word ''OTHER'', word ''value'']]"

definition otherName :: SyntaxNode where
  "otherName = children (children (rootNode setPathOther) ! 0) ! 2"

definition pathFlagToken :: SyntaxNode where
  "pathFlagToken = children (children (rootNode setPathOther) ! 0) ! 1"

text \<open>\<open>if true; and end; end\<close>: a command named \<open>end\<close> inside an if statement.\<close>

definition nestedEndProgram :: tree where
  "nestedEndProgram = Tree ''program'' ''if true; and end; end'' True
     [Tree ''if_statement'' ''if true; and end; end'' True
        [tok ''if'', Tree ''command'' ''true'' True [word ''true''], tok '';'',
         Tree ''conditional_execution'' ''and end'' True
           [tok ''and'', Tree ''command'' ''end'' True [word ''end'']],
         tok '';'', tok ''end'']]"

definition nestedIf :: SyntaxNode where
  "nestedIf = children (rootNode nestedEndProgram) ! 0"

definition nestedEnd :: SyntaxNode where
  "nestedEnd = children (children (children nestedIf ! 3) ! 1) ! 0"

text \<open>\<open>function f; if a; return 0; else; return 1; end; end\<close>\<close>

definition exhaustiveProgram :: tree where
  "exhaustiveProgram = Tree ''program'' ''function f; if a; return 0; else; return 1; end; end'' True
     [Tree ''function_definition'' ''function f; if a; return 0; else; return 1; end; end'' True
        [tok ''function'', word ''f'', tok '';'',
         Tree ''if_statement'' ''if a; return 0; else; return 1; end'' True
           [tok ''if'', Tree ''command'' ''a'' True [word ''a''], tok '';'',
            Tree ''return'' ''return 0'' True [tok ''return'', Tree ''integer'' ''0'' True []],
            tok '';'',
            Tree ''else_clause'' ''else; return 1;'' True
              [tok ''else'', tok '';'',
               Tree ''return'' ''return 1'' True [tok ''return'', Tree ''integer'' ''1'' True []],
               tok '';''],
            tok ''end''],
         tok '';'', tok ''end'']]"

definition exhaustiveFun :: SyntaxNode where
  "exhaustiveFun = children (rootNode exhaustiveProgram) ! 0"

subsection \<open>Notions the statements use\<close>

text \<open>The nodes that enclose a node, the nearest first.\<close>

fun ancestors :: "SyntaxNode \<Rightarrow> SyntaxNode list" where
  "ancestors (SyntaxNode None bs t ts) = []"
| "ancestors (SyntaxNode (Some p) bs t ts) = p # ancestors p"

definition unreachable :: "SyntaxNode \<Rightarrow> Diagnostic" where
  "unreachable s = createDiagnostic s unreachableCode None"

text \<open>The named siblings after a node, in source order.\<close>

definition namedFollowing :: "SyntaxNode \<Rightarrow> SyntaxNode list" where
  "namedFollowing n = filter isNamed (followingSiblings n)"

text \<open>The diagnostics a call appended to the list \<open>ds\<close> it was given.\<close>

definition appended :: "Diagnostic list \<Rightarrow> Diagnostic list \<Rightarrow> Diagnostic list" where
  "appended ds out = drop (length ds) out"


text \<open>
  \<open>visits nt doc (root, s) (node, s')\<close>: the call of \<open>collectAllDiagnostics\<close> on \<open>root\<close>
  with the list and sets \<open>s\<close> makes, itself or through the loop over \<open>root.children\<close>
  of a call it makes, the call on \<open>node\<close> with the list and sets \<open>s'\<close>.
\<close>

type_synonym walk_state = "Diagnostic list \<times> string set \<times> string set"

inductive visits :: "node_types \<Rightarrow> LspDocument \<Rightarrow> SyntaxNode \<times> walk_state \<Rightarrow> SyntaxNode \<times> walk_state \<Rightarrow> bool"
  for nt :: node_types and doc :: LspDocument
where
  visits_start: "visits nt doc call call"
| visits_child:
    "visits nt doc call (node, ds, fs, vs) \<Longrightarrow>
     detectors nt node doc ds fs vs = (shouldAdd, ds1, fs1, vs1) \<Longrightarrow>
     children node = earlier @ child # later \<Longrightarrow>
     childrenLoop nt earlier doc shouldAdd ds1 fs1 vs1 = (shouldAdd', ds2, fs2, vs2) \<Longrightarrow>
     visits nt doc call (child, ds2, fs2, vs2)"

section \<open>Facts about the detectors\<close>

lemma collectEndError_cases:
  "collectEndError nt node ds = (False, ds) \<or> (\<exists>d. collectEndError nt node ds = (True, ds @ [d]))"
  by (simp add: collectEndError_def Let_def split: option.splits)

lemma collectEndError_False:
  "\<not> fst (collectEndError nt node ds) \<Longrightarrow> collectEndError nt node ds = (False, ds)"
  using collectEndError_cases [of nt node ds] by auto

lemma collectFunctionNames_False:
  "\<not> fst (collectFunctionNames nt node doc ds fs) \<Longrightarrow> collectFunctionNames nt node doc ds fs = (False, ds, fs)"
  by (simp add: collectFunctionNames_def Let_def split: if_splits)

lemma collectFunctionNames_codes:
  "\<exists>new. fst (snd (collectFunctionNames nt node doc ds fs)) = ds @ new
     \<and> fst (collectFunctionNames nt node doc ds fs) = (new \<noteq> [])
     \<and> map code new \<in> {[], [duplicateFunctionName], [missingAutoloadedFunctionName],
          [privateHelperFunction], [duplicateFunctionName, privateHelperFunction]}"
  by (simp add: collectFunctionNames_def Let_def createDiagnostic_def)

lemma collectVariableNames_cases:
  "collectVariableNames nt node doc ds vs = (False, ds, vs)
   \<or> (\<exists>d vs'. collectVariableNames nt node doc ds vs = (True, ds @ [d], vs'))"
  by (auto simp: collectVariableNames_def getUniversalVariable_def getPathVariable_def Let_def
      split: option.splits prod.splits if_splits)

lemma collectVariableNames_False:
  "\<not> fst (collectVariableNames nt node doc ds vs) \<Longrightarrow> collectVariableNames nt node doc ds vs = (False, ds, vs)"
  using collectVariableNames_cases [of nt node doc ds vs] by auto

lemma scopesLoop_True:
  "scopesLoop nt doc xs True ds = (True, ds @ map (\<lambda>s. createDiagnostic s unreachableCode (Some doc)) xs)"
  by (induction xs arbitrary: ds) simp_all

lemma scopesLoop_cases:
  "scopesLoop nt doc xs h ds = (False, ds) \<or> (\<exists>new. scopesLoop nt doc xs h ds = (True, ds @ new))"
proof (induction xs arbitrary: h ds)
  case Nil
  then show ?case by (cases h) simp_all
next
  case (Cons x xs)
  show ?case
  proof (cases h)
    case True
    then show ?thesis by (simp only: scopesLoop_True) blast
  next
    case False
    then show ?thesis using Cons.IH by simp
  qed
qed

lemma collectFunctionsScopes_cases:
  "collectFunctionsScopes nt node doc ds = (False, ds)
   \<or> (\<exists>new. collectFunctionsScopes nt node doc ds = (True, ds @ new))"
  using scopesLoop_cases by (simp add: collectFunctionsScopes_def)

lemma collectFunctionsScopes_False:
  "\<not> fst (collectFunctionsScopes nt node doc ds) \<Longrightarrow> collectFunctionsScopes nt node doc ds = (False, ds)"
  using collectFunctionsScopes_cases [of nt node doc ds] by auto

lemma chainLoop_False:
  "chainLoop nt xs False ds = ds @ map unreachable xs"
  by (induction xs arbitrary: ds) (simp_all add: unreachable_def)

lemma chainLoop_True:
  "chainLoop nt xs True ds = ds @ map unreachable (dropWhile (isConditionalCommand nt) xs)"
  by (induction xs arbitrary: ds) (simp_all add: chainLoop_False, simp add: unreachable_def)

lemma isNamed_SyntaxNode: "isNamed (SyntaxNode p bs t ts) = tnamed t"
  by (simp add: isNamed_def)

lemma named_locate:
  "filter isNamed (locate p bs ts) = m # rest \<Longrightarrow>
     rest = filter isNamed (locate (up m) (before m @ [here m]) (after m))"
proof (induction ts arbitrary: bs)
  case Nil
  then show ?case by simp
next
  case (Cons t ts)
  show ?case
  proof (cases "tnamed t")
    case True
    with Cons.prems show ?thesis by (auto simp: isNamed_SyntaxNode)
  next
    case False
    with Cons.prems have "filter isNamed (locate p (bs @ [t]) ts) = m # rest"
      by (simp add: isNamed_SyntaxNode)
    then show ?thesis by (rule Cons.IH)
  qed
qed

lemma nextNamedSibling_None: "nextNamedSibling n = None \<Longrightarrow> namedFollowing n = []"
  by (simp add: nextNamedSibling_def namedFollowing_def firstOf_def split: list.splits)

lemma nextNamedSibling_Some: "nextNamedSibling n = Some m \<Longrightarrow> namedFollowing n = m # namedFollowing m"
proof -
  assume "nextNamedSibling n = Some m"
  then obtain rest where r: "filter isNamed (followingSiblings n) = m # rest"
    by (auto simp: nextNamedSibling_def firstOf_def split: list.splits)
  then have "rest = filter isNamed (locate (up m) (before m @ [here m]) (after m))"
    unfolding followingSiblings_def by (rule named_locate)
  with r show ?thesis by (simp add: namedFollowing_def followingSiblings_def)
qed

lemma siblingsLoop_eq:
  "siblingsLoop nt c acc = acc @ takeWhile (\<lambda>s. \<not> isStatement nt s)
      (case c of None \<Rightarrow> [] | Some n \<Rightarrow> n # namedFollowing n)"
proof (induction nt c acc rule: siblingsLoop.induct)
  case (1 nt siblings)
  then show ?case by simp
next
  case (2 nt currentNode siblings)
  show ?case
  proof (cases "isStatement nt currentNode")
    case True
    then show ?thesis by simp
  next
    case False
    show ?thesis
    proof (cases "nextNamedSibling currentNode")
      case None
      with False 2 show ?thesis by (simp add: nextNamedSibling_None)
    next
      case (Some m)
      with False 2 show ?thesis by (simp add: nextNamedSibling_Some)
    qed
  qed
qed

lemma collectReturnError_cases:
  "collectReturnError nt node ds = (False, ds) \<or> (\<exists>new. collectReturnError nt node ds = (True, ds @ new))"
  by (simp add: collectReturnError_def chainLoop_True)

lemma detectors_appends: "\<exists>new. fst (snd (detectors nt root doc ds fs vs)) = ds @ new"
proof -
  obtain r1 d1 where e1: "collectEndError nt root ds = (r1, d1)" by fastforce
  obtain r2 d2 f2 where e2: "collectFunctionNames nt root doc ds fs = (r2, d2, f2)" by (metis prod_cases3)
  obtain r3 d3 v3 where e3: "collectVariableNames nt root doc ds vs = (r3, d3, v3)" by (metis prod_cases3)
  obtain r4 d4 where e4: "collectFunctionsScopes nt root doc ds = (r4, d4)" by fastforce
  obtain r5 d5 where e5: "collectReturnError nt root ds = (r5, d5)" by fastforce
  show ?thesis
    using collectEndError_cases [of nt root ds] collectFunctionNames_codes [of nt root doc ds fs]
      collectFunctionNames_False [of nt root doc ds fs]
      collectVariableNames_cases [of nt root doc ds vs]
      collectFunctionsScopes_cases [of nt root doc ds]
      collectReturnError_cases [of nt root ds] e1 e2 e3 e4 e5
    by (auto simp: detectors_def)
qed

lemma walk_appends:
  "\<exists>new. fst (snd (collectAllDiagnostics nt root doc ds fs vs)) = ds @ new"
  "\<exists>new. fst (snd (childrenLoop nt ns doc r ds fs vs)) = ds @ new"
proof (induction nt root doc ds fs vs and nt ns doc r ds fs vs
       rule: collectAllDiagnostics_childrenLoop.induct)
  case (1 nt root doc diagnostics functionNames variableNames)
  obtain r d f v where e: "detectors nt root doc diagnostics functionNames variableNames = (r, d, f, v)"
    by (metis prod_cases4)
  from detectors_appends [of nt root doc diagnostics functionNames variableNames] e
  obtain new1 where n1: "d = diagnostics @ new1" by auto
  from 1 [OF e [symmetric] refl refl]
  obtain new2 where "fst (snd (childrenLoop nt (children root) doc r d f v)) = d @ new2" ..
  with e n1 show ?case by simp
next
  case (2 nt doc shouldAdd ds fs vs)
  show ?case by simp
next
  case (3 nt node rest doc shouldAdd ds fs vs)
  obtain r d f v where e: "collectAllDiagnostics nt node doc ds fs vs = (r, d, f, v)"
    by (metis prod_cases4)
  from 3(1) e obtain new1 where n1: "d = ds @ new1" by auto
  from 3(2) [OF e [symmetric] refl refl]
  obtain new2 where "fst (snd (childrenLoop nt rest doc r d f v)) = d @ new2" ..
  with e n1 show ?case by simp
qed

lemma childrenLoop_append:
  "childrenLoop nt (xs @ ys) doc r ds fs vs =
     (case childrenLoop nt xs doc r ds fs vs of
        (r', ds', fs', vs') \<Rightarrow> childrenLoop nt ys doc r' ds' fs' vs')"
proof (induction xs arbitrary: r ds fs vs)
  case Nil
  show ?case by simp
next
  case (Cons x xs)
  obtain r1 d1 f1 v1 where e: "collectAllDiagnostics nt x doc ds fs vs = (r1, d1, f1, v1)"
    by (metis prod_cases4)
  show ?case using Cons.IH [of r1 d1 f1 v1] e by simp
qed

lemma visits_prefix:
  assumes "visits nt doc (root, ds0, fs0, vs0) (node, ds, fs, vs)"
  shows "\<exists>ext. fst (snd (collectAllDiagnostics nt root doc ds0 fs0 vs0))
           = fst (snd (collectAllDiagnostics nt node doc ds fs vs)) @ ext"
  using assms
proof (induction "(root, ds0, fs0, vs0)" "(node, ds, fs, vs)" arbitrary: node ds fs vs rule: visits.induct)
  case visits_start
  show ?case by simp
next
  case (visits_child node ds fs vs shouldAdd ds1 fs1 vs1 earlier child later shouldAdd' ds2 fs2 vs2)
  obtain r3 d3 f3 v3 where c: "collectAllDiagnostics nt child doc ds2 fs2 vs2 = (r3, d3, f3, v3)"
    by (metis prod_cases4)
  have "collectAllDiagnostics nt node doc ds fs vs
          = childrenLoop nt (earlier @ child # later) doc shouldAdd ds1 fs1 vs1"
    using visits_child.hyps(3,4) by simp
  also have "\<dots> = childrenLoop nt later doc r3 d3 f3 v3"
    using visits_child.hyps(5) c by (simp add: childrenLoop_append)
  finally have n: "collectAllDiagnostics nt node doc ds fs vs = childrenLoop nt later doc r3 d3 f3 v3" .
  obtain ext1 where "fst (snd (childrenLoop nt later doc r3 d3 f3 v3)) = d3 @ ext1"
    using walk_appends(2) by blast
  with n c have "fst (snd (collectAllDiagnostics nt node doc ds fs vs))
      = fst (snd (collectAllDiagnostics nt child doc ds2 fs2 vs2)) @ ext1"
    by simp
  moreover obtain ext2 where "fst (snd (collectAllDiagnostics nt root doc ds0 fs0 vs0))
           = fst (snd (collectAllDiagnostics nt node doc ds fs vs)) @ ext2"
    using visits_child.hyps(2) by blast
  ultimately show ?case by simp
qed

section \<open>Facts about the example trees\<close>

lemmas handle_defs = rootNode_def children_def namedChildren_def followingSiblings_def
  precedingSiblings_def namedFollowing_def nextNamedSibling_def lastChild_def
  lastNamedChild_def isNamed_def node_type_def node_text_def firstOf_def lastOf_def
  tok_def word_def

lemmas fish_eval = fish_def isCommand_def isSetVariableName_def handle_defs

lemmas detector_defs = detectors_def collectEndError_def isMissingEnd_def isExtraEnd_def
  isSyntaxError_def orElse_def collectFunctionNames_def collectVariableNames_def
  getUniversalVariable_def getPathVariable_def findVariableFlagsIfSeen_def
  isUniveralOption_def endsWith_def collectFunctionsScopes_def collectReturnError_def
  collectDiagnosticsRecursive_def createDiagnostic_def Let_def

lemma chain_nodes:
  "echoA = SyntaxNode (Some (rootNode chainProgram)) []
     (tkids chainProgram ! 0) (drop 1 (tkids chainProgram))"
  "andEchoB = SyntaxNode (Some (rootNode chainProgram)) (take 2 (tkids chainProgram))
     (tkids chainProgram ! 2) (drop 3 (tkids chainProgram))"
  "echoC = SyntaxNode (Some (rootNode chainProgram)) (take 4 (tkids chainProgram))
     (tkids chainProgram ! 4) []"
  by (simp_all add: echoA_def andEchoB_def echoC_def chainProgram_def handle_defs)


lemma chain_kinds:
  "\<not> isReturn fish echoA" "\<not> isStatement fish echoA" "\<not> isConditionalCommand fish echoA"
  "isConditionalCommand fish andEchoB" "\<not> isStatement fish andEchoB"
  "\<not> isConditionalCommand fish echoC" "\<not> isStatement fish echoC"
  by (simp_all add: chain_nodes fish_def node_type_def chainProgram_def tok_def word_def)

lemma echoA_detectors:
  "\<not> fst (collectEndError fish echoA ds)"
  "\<not> fst (collectFunctionNames fish echoA plainDoc ds fs)"
  "\<not> fst (collectVariableNames fish echoA plainDoc ds vs)"
  "\<not> fst (collectFunctionsScopes fish echoA plainDoc ds)"
  by (simp_all add: collectEndError_def isMissingEnd_def isExtraEnd_def isSyntaxError_def
      collectFunctionNames_def collectVariableNames_def collectFunctionsScopes_def
      orElse_def chain_nodes fish_def isSetVariableName_def isCommand_def node_type_def
      chainProgram_def rootNode_def tok_def word_def)

lemma chainProgram_detectors:
  "detectors fish (rootNode chainProgram) plainDoc [] {} {}
     = (True, [unreachable (rootNode chainProgram)], {}, {})"
  by (simp add: detector_defs unreachable_def chainProgram_def fish_eval)

lemma chainProgram_children:
  "children (rootNode chainProgram) = [] @ echoA # [children (rootNode chainProgram) ! 1,
      andEchoB, children (rootNode chainProgram) ! 3, echoC]"
  by (simp add: echoA_def andEchoB_def echoC_def chainProgram_def rootNode_def children_def)

lemma echoA_visited:
  "visits fish plainDoc (rootNode chainProgram, [], {}, {})
     (echoA, [unreachable (rootNode chainProgram)], {}, {})"
proof (rule visits_child)
  show "visits fish plainDoc (rootNode chainProgram, [], {}, {}) (rootNode chainProgram, [], {}, {})"
    by (rule visits_start)
  show "detectors fish (rootNode chainProgram) plainDoc [] {} {}
     = (True, [unreachable (rootNode chainProgram)], {}, {})"
    by (rule chainProgram_detectors)
  show "children (rootNode chainProgram) = [] @ echoA # [children (rootNode chainProgram) ! 1,
      andEchoB, children (rootNode chainProgram) ! 3, echoC]"
    by (rule chainProgram_children)
  show "childrenLoop fish [] plainDoc True [unreachable (rootNode chainProgram)] {} {}
     = (True, [unreachable (rootNode chainProgram)], {}, {})"
    by simp
qed

lemma exhaustiveFun_node:
  "exhaustiveFun = SyntaxNode (Some (rootNode exhaustiveProgram)) [] (tkids exhaustiveProgram ! 0) []"
  by (simp add: exhaustiveFun_def exhaustiveProgram_def rootNode_def children_def)

lemma exhaustive_detectors:
  "detectors fish (rootNode exhaustiveProgram) plainDoc [] {} {}
     = (True, [unreachable (rootNode exhaustiveProgram)], {}, {})"
  by (simp add: detector_defs unreachable_def exhaustiveProgram_def fish_eval)

lemma exhaustiveFun_visited:
  "visits fish plainDoc (rootNode exhaustiveProgram, [], {}, {})
     (exhaustiveFun, [unreachable (rootNode exhaustiveProgram)], {}, {})"
proof (rule visits_child)
  show "visits fish plainDoc (rootNode exhaustiveProgram, [], {}, {})
     (rootNode exhaustiveProgram, [], {}, {})"
    by (rule visits_start)
  show "detectors fish (rootNode exhaustiveProgram) plainDoc [] {} {}
     = (True, [unreachable (rootNode exhaustiveProgram)], {}, {})"
    by (rule exhaustive_detectors)
  show "children (rootNode exhaustiveProgram) = [] @ exhaustiveFun # []"
    by (simp add: exhaustiveFun_def exhaustiveProgram_def rootNode_def children_def)
  show "childrenLoop fish [] plainDoc True [unreachable (rootNode exhaustiveProgram)] {} {}
     = (True, [unreachable (rootNode exhaustiveProgram)], {}, {})"
    by simp
qed

lemma exhaustiveFun_detectors:
  "\<not> isReturn fish exhaustiveFun" "\<not> isStatement fish exhaustiveFun"
  "\<not> isConditionalCommand fish exhaustiveFun"
  "collectEndError fish exhaustiveFun ds = (False, ds)"
  "collectFunctionNames fish exhaustiveFun plainDoc ds {} = (False, ds, {})"
  "collectVariableNames fish exhaustiveFun plainDoc ds {} = (False, ds, {})"
  "collectFunctionsScopes fish exhaustiveFun plainDoc ds = (True, ds)"
  by (simp_all add: detector_defs exhaustiveFun_def exhaustiveProgram_def fish_eval)

section \<open>The trailing-chain rule\<close>




lemma collectReturnError_head:
  assumes "\<not> isReturn nt node" "\<not> isStatement nt node" "\<not> isConditionalCommand nt node"
  shows "\<exists>rest. collectReturnError nt node ds
           = (True, ds @ createDiagnostic node unreachableCode None # rest)"
  using assms
  by (simp add: collectReturnError_def chainLoop_True siblingsLoop_eq unreachable_def)

lemma scan_reports_at_the_call:
  assumes "\<not> isReturn nt node" and "\<not> isStatement nt node"
    and "\<not> isConditionalCommand nt node"
    and "\<not> fst (collectEndError nt node ds)"
    and "\<not> fst (collectFunctionNames nt node doc ds fs)"
    and "\<not> fst (collectVariableNames nt node doc ds vs)"
    and "\<not> fst (collectFunctionsScopes nt node doc ds)"
  shows "\<exists>rest. fst (snd (collectAllDiagnostics nt node doc ds fs vs))
           = ds @ createDiagnostic node unreachableCode None # rest"
proof -
  from assms(1-3) obtain rest1
    where r: "collectReturnError nt node ds
                = (True, ds @ createDiagnostic node unreachableCode None # rest1)"
    using collectReturnError_head by blast
  have d: "detectors nt node doc ds fs vs
             = (True, ds @ createDiagnostic node unreachableCode None # rest1, fs, vs)"
    using assms(4-7) r
    by (simp add: detectors_def collectEndError_False collectFunctionNames_False
        collectVariableNames_False collectFunctionsScopes_False)
  obtain rest2 where
    "fst (snd (childrenLoop nt (children node) doc True
        (ds @ createDiagnostic node unreachableCode None # rest1) fs vs))
      = (ds @ createDiagnostic node unreachableCode None # rest1) @ rest2"
    using walk_appends(2) by blast
  with d show ?thesis by simp
qed

text \<open>
  C10, as the code has it. The scan of \<open>collectReturnError\<close> begins with the scanned
  node itself. For every node that the pass \<open>collectDiagnosticsRecursive\<close> visits, that
  is not a return statement, not a statement and not a conditional continuation, and
  on which each of the four earlier detectors of the chain returns \<open>false\<close>, the pass
  emits an \<open>unreachableCode\<close> diagnostic anchored on that very node: it is the first
  diagnostic appended to the list \<open>ds\<close> with which the node is visited.
\<close>

theorem scan_reports_the_node_itself:
  assumes "visits nt doc (root, [], {}, {}) (node, ds, fs, vs)"
    and "\<not> isReturn nt node" and "\<not> isStatement nt node"
    and "\<not> isConditionalCommand nt node"
    and "\<not> fst (collectEndError nt node ds)"
    and "\<not> fst (collectFunctionNames nt node doc ds fs)"
    and "\<not> fst (collectVariableNames nt node doc ds vs)"
    and "\<not> fst (collectFunctionsScopes nt node doc ds)"
  shows "\<exists>rest. collectDiagnosticsRecursive nt root doc
           = ds @ createDiagnostic node unreachableCode None # rest"
proof -
  obtain rest1 where "fst (snd (collectAllDiagnostics nt node doc ds fs vs))
           = ds @ createDiagnostic node unreachableCode None # rest1"
    using scan_reports_at_the_call [OF assms(2-8)] by blast
  moreover obtain ext where "fst (snd (collectAllDiagnostics nt root doc [] {} {}))
           = fst (snd (collectAllDiagnostics nt node doc ds fs vs)) @ ext"
    using visits_prefix [OF assms(1)] by blast
  ultimately show ?thesis by (simp add: collectDiagnosticsRecursive_def)
qed

theorem scan_reports_the_node_itself_witness:
  "visits fish plainDoc (rootNode chainProgram, [], {}, {})
     (echoA, [unreachable (rootNode chainProgram)], {}, {})
   \<and> \<not> isReturn fish echoA \<and> \<not> isStatement fish echoA \<and> \<not> isConditionalCommand fish echoA
   \<and> \<not> fst (collectEndError fish echoA [unreachable (rootNode chainProgram)])
   \<and> \<not> fst (collectFunctionNames fish echoA plainDoc [unreachable (rootNode chainProgram)] {})
   \<and> \<not> fst (collectVariableNames fish echoA plainDoc [unreachable (rootNode chainProgram)] {})
   \<and> \<not> fst (collectFunctionsScopes fish echoA plainDoc [unreachable (rootNode chainProgram)])
   \<and> (\<exists>rest. collectDiagnosticsRecursive fish (rootNode chainProgram) plainDoc
          = [unreachable (rootNode chainProgram)]
            @ createDiagnostic echoA unreachableCode None # rest)"
  using scan_reports_the_node_itself [of fish plainDoc "rootNode chainProgram" echoA
      "[unreachable (rootNode chainProgram)]" "{}" "{}"]
  by (simp add: chain_kinds echoA_detectors echoA_visited)

text \<open>
  C10 as the specification states it (the earlier detectors produce nothing) fails on
  the function definition of \<open>function f; if a; return 0; else; return 1; end; end\<close>.
  The four earlier detectors append nothing there, but \<open>collectFunctionsScopes\<close>
  returns \<open>true\<close>, since the if statement is exhaustive and no statement follows it; the
  chain stops, \<open>collectReturnError\<close> does not run, and the pass anchors no diagnostic
  on the function definition.
\<close>

theorem silent_detector_counterexample:
  "visits fish plainDoc (rootNode exhaustiveProgram, [], {}, {})
     (exhaustiveFun, [unreachable (rootNode exhaustiveProgram)], {}, {})
   \<and> \<not> isReturn fish exhaustiveFun \<and> \<not> isStatement fish exhaustiveFun
   \<and> \<not> isConditionalCommand fish exhaustiveFun
   \<and> collectEndError fish exhaustiveFun [unreachable (rootNode exhaustiveProgram)]
       = (False, [unreachable (rootNode exhaustiveProgram)])
   \<and> collectFunctionNames fish exhaustiveFun plainDoc [unreachable (rootNode exhaustiveProgram)] {}
       = (False, [unreachable (rootNode exhaustiveProgram)], {})
   \<and> collectVariableNames fish exhaustiveFun plainDoc [unreachable (rootNode exhaustiveProgram)] {}
       = (False, [unreachable (rootNode exhaustiveProgram)], {})
   \<and> collectFunctionsScopes fish exhaustiveFun plainDoc [unreachable (rootNode exhaustiveProgram)]
       = (True, [unreachable (rootNode exhaustiveProgram)])
   \<and> exhaustiveFun
       \<notin> set (map anchor (collectDiagnosticsRecursive fish (rootNode exhaustiveProgram) plainDoc))"
proof -
  have "exhaustiveFun
       \<notin> set (map anchor (collectDiagnosticsRecursive fish (rootNode exhaustiveProgram) plainDoc))"
    by (simp add: detector_defs exhaustiveFun_def exhaustiveProgram_def plainDoc_def fish_eval)
  then show ?thesis
    by (simp add: exhaustiveFun_visited exhaustiveFun_detectors)
qed

section \<open>The precedence chain\<close>

lemma appended_append: "appended ds (ds @ new) = new"
  by (simp add: appended_def)

lemma collectFunctionNames_count:
  "fst (collectFunctionNames nt root doc ds fs) \<Longrightarrow>
   length (appended ds (fst (snd (collectFunctionNames nt root doc ds fs)))) \<in> {1, 2}"
  by (simp add: collectFunctionNames_def Let_def appended_def split: if_splits)

lemma collectFunctionNames_appended_codes:
  "map code (appended ds (fst (snd (collectFunctionNames nt node doc ds fs))))
     \<in> {[], [duplicateFunctionName], [missingAutoloadedFunctionName],
          [privateHelperFunction], [duplicateFunctionName, privateHelperFunction]}"
  by (simp add: collectFunctionNames_def Let_def appended_def createDiagnostic_def)

lemma secondFoo_node:
  "secondFoo = SyntaxNode (Some (SyntaxNode (Some (rootNode twoFoo)) [fooDef, tok '';''] fooDef []))
      [tok ''function''] (word ''foo'') [tok '';'', tok ''end'']"
  by (simp add: secondFoo_def twoFoo_def fooDef_def rootNode_def children_def)

lemma secondFoo_kinds:
  "isFunctionDefinitionName fish secondFoo" "node_text secondFoo = ''foo''"
  "\<not> isError fish secondFoo" "\<not> isCommandName fish secondFoo"
  by (simp_all add: secondFoo_node fish_def isCommand_def fooDef_def node_type_def node_text_def
      isNamed_def tok_def word_def)

lemma secondFoo_names:
  "collectFunctionNames fish secondFoo plainDoc [] {''foo''} =
     (True, [createDiagnostic secondFoo duplicateFunctionName None,
             createDiagnostic secondFoo privateHelperFunction None], {''foo''})"
  by (simp add: collectFunctionNames_def secondFoo_kinds plainDoc_def)

lemma secondFoo_end: "collectEndError fish secondFoo [] = (False, [])"
  by (simp add: collectEndError_def isMissingEnd_def isExtraEnd_def isSyntaxError_def
      orElse_def secondFoo_kinds)

lemma barName_node:
  "barName = SyntaxNode (Some (children (rootNode underFooBar) ! 2))
      [tok ''function''] (word ''bar'') [tok '';'', tok ''end'']"
  by (simp add: barName_def underFooBar_def rootNode_def children_def)

lemma barName_kinds:
  "isFunctionDefinitionName fish barName" "node_text barName = ''bar''"
  by (simp_all add: barName_node fish_def underFooBar_def rootNode_def children_def
      node_type_def node_text_def isNamed_def tok_def word_def)

lemma barName_names:
  "collectFunctionNames fish barName underFooDoc [] {} =
     (True, [createDiagnostic barName missingAutoloadedFunctionName None], {''bar''})"
  by (simp add: collectFunctionNames_def barName_kinds underFooDoc_def)

text \<open>
  C3, as the code has it. For every node, the chain of \<open>collectAllDiagnostics\<close> yields
  what a single detector yields: the first, in the order end-balance, function names,
  variable flags, exhaustive returns, trailing chain, that reports \<open>true\<close>, run on the
  list and the sets the chain was given; the detectors before it leave the list and
  both sets as they were. The end-balance detector and the variable detector append
  exactly one diagnostic when they report, the function-name detector one or two. The
  two reachability detectors append one diagnostic for each statement or sibling they
  find unreachable.
\<close>

theorem detectors_first_wins:
  "detectors nt root doc ds fs vs =
     (if fst (collectEndError nt root ds)
      then (True, snd (collectEndError nt root ds), fs, vs)
      else if fst (collectFunctionNames nt root doc ds fs)
      then (True, fst (snd (collectFunctionNames nt root doc ds fs)),
            snd (snd (collectFunctionNames nt root doc ds fs)), vs)
      else if fst (collectVariableNames nt root doc ds vs)
      then (True, fst (snd (collectVariableNames nt root doc ds vs)), fs,
            snd (snd (collectVariableNames nt root doc ds vs)))
      else if fst (collectFunctionsScopes nt root doc ds)
      then (True, snd (collectFunctionsScopes nt root doc ds), fs, vs)
      else (fst (collectReturnError nt root ds), snd (collectReturnError nt root ds), fs, vs))
   \<and> (fst (collectEndError nt root ds) \<longrightarrow>
        length (appended ds (snd (collectEndError nt root ds))) = 1)
   \<and> (fst (collectFunctionNames nt root doc ds fs) \<longrightarrow>
        length (appended ds (fst (snd (collectFunctionNames nt root doc ds fs)))) \<in> {1, 2})
   \<and> (fst (collectVariableNames nt root doc ds vs) \<longrightarrow>
        length (appended ds (fst (snd (collectVariableNames nt root doc ds vs)))) = 1)"
proof (intro conjI impI)
  have e: "\<not> fst (collectEndError nt root ds) \<Longrightarrow> snd (collectEndError nt root ds) = ds"
    by (simp add: collectEndError_False)
  have f: "\<not> fst (collectFunctionNames nt root doc ds fs) \<Longrightarrow>
      fst (snd (collectFunctionNames nt root doc ds fs)) = ds
      \<and> snd (snd (collectFunctionNames nt root doc ds fs)) = fs"
    by (simp add: collectFunctionNames_False)
  have v: "\<not> fst (collectVariableNames nt root doc ds vs) \<Longrightarrow>
      fst (snd (collectVariableNames nt root doc ds vs)) = ds
      \<and> snd (snd (collectVariableNames nt root doc ds vs)) = vs"
    by (simp add: collectVariableNames_False)
  have s: "\<not> fst (collectFunctionsScopes nt root doc ds) \<Longrightarrow>
      snd (collectFunctionsScopes nt root doc ds) = ds"
    by (simp add: collectFunctionsScopes_False)
  show "detectors nt root doc ds fs vs =
     (if fst (collectEndError nt root ds)
      then (True, snd (collectEndError nt root ds), fs, vs)
      else if fst (collectFunctionNames nt root doc ds fs)
      then (True, fst (snd (collectFunctionNames nt root doc ds fs)),
            snd (snd (collectFunctionNames nt root doc ds fs)), vs)
      else if fst (collectVariableNames nt root doc ds vs)
      then (True, fst (snd (collectVariableNames nt root doc ds vs)), fs,
            snd (snd (collectVariableNames nt root doc ds vs)))
      else if fst (collectFunctionsScopes nt root doc ds)
      then (True, snd (collectFunctionsScopes nt root doc ds), fs, vs)
      else (fst (collectReturnError nt root ds), snd (collectReturnError nt root ds), fs, vs))"
  proof (cases "fst (collectEndError nt root ds)")
    case True
    then show ?thesis by (simp add: detectors_def case_prod_beta)
  next
    case c1: False
    show ?thesis
    proof (cases "fst (collectFunctionNames nt root doc ds fs)")
      case True
      with c1 e show ?thesis by (simp add: detectors_def case_prod_beta)
    next
      case c2: False
      show ?thesis
      proof (cases "fst (collectVariableNames nt root doc ds vs)")
        case True
        with c1 c2 e f show ?thesis by (simp add: detectors_def case_prod_beta)
      next
        case c3: False
        show ?thesis
        proof (cases "fst (collectFunctionsScopes nt root doc ds)")
          case True
          with c1 c2 c3 e f v show ?thesis by (simp add: detectors_def case_prod_beta)
        next
          case c4: False
          with c1 c2 c3 e f v s show ?thesis by (simp add: detectors_def case_prod_beta)
        qed
      qed
    qed
  qed
next
  assume "fst (collectEndError nt root ds)"
  then show "length (appended ds (snd (collectEndError nt root ds))) = 1"
    using collectEndError_cases [of nt root ds] by (auto simp: appended_append)
next
  assume "fst (collectFunctionNames nt root doc ds fs)"
  then show "length (appended ds (fst (snd (collectFunctionNames nt root doc ds fs)))) \<in> {1, 2}"
    by (rule collectFunctionNames_count)
next
  assume "fst (collectVariableNames nt root doc ds vs)"
  then show "length (appended ds (fst (snd (collectVariableNames nt root doc ds vs)))) = 1"
    using collectVariableNames_cases [of nt root doc ds vs] by (auto simp: appended_append)
qed

theorem detectors_first_wins_witness:
  "detectors fish secondFoo plainDoc [] {''foo''} {} =
     (True, [createDiagnostic secondFoo duplicateFunctionName None,
             createDiagnostic secondFoo privateHelperFunction None], {''foo''}, {})
   \<and> \<not> fst (collectEndError fish secondFoo [])
   \<and> fst (collectFunctionNames fish secondFoo plainDoc [] {''foo''})
   \<and> length (appended [] (fst (snd (collectFunctionNames fish secondFoo plainDoc [] {''foo''}))))
       \<in> {1, 2}"
  using detectors_first_wins [of fish secondFoo plainDoc "[]" "{''foo''}" "{}"]
  by (simp add: secondFoo_names secondFoo_end)

text \<open>
  C3 as the specification states it (at most one diagnostic for a node) fails on the
  second name of \<open>function foo; end; function foo; end\<close>: with \<open>foo\<close> already in
  \<open>functionNames\<close> the chain appends \<open>duplicateFunctionName\<close> and
  \<open>privateHelperFunction\<close>.
\<close>

theorem one_diagnostic_per_node_counterexample:
  "appended [] (fst (snd (detectors fish secondFoo plainDoc [] {''foo''} {})))
     = [createDiagnostic secondFoo duplicateFunctionName None,
        createDiagnostic secondFoo privateHelperFunction None]
   \<and> length (appended [] (fst (snd (detectors fish secondFoo plainDoc [] {''foo''} {})))) = 2"
  by (simp add: detectors_def secondFoo_names secondFoo_end appended_def)

section \<open>The naming rules\<close>

text \<open>
  C5, as the code has it. On one function-definition name \<open>collectFunctionNames\<close>
  appends nothing, one of the three naming diagnostics, or \<open>duplicateFunctionName\<close>
  followed by \<open>privateHelperFunction\<close>: this pair does occur (the second \<open>foo\<close> of
  \<open>function foo; end; function foo; end\<close>), and \<open>missingAutoloadedFunctionName\<close>
  never comes with either of the other two.
\<close>

theorem naming_codes:
  "map code (appended ds (fst (snd (collectFunctionNames nt node doc ds fs))))
     \<in> {[], [duplicateFunctionName], [missingAutoloadedFunctionName],
          [privateHelperFunction], [duplicateFunctionName, privateHelperFunction]}
   \<and> map code (appended [] (fst (snd (collectFunctionNames fish secondFoo plainDoc [] {''foo''}))))
       = [duplicateFunctionName, privateHelperFunction]"
proof
  show "map code (appended ds (fst (snd (collectFunctionNames nt node doc ds fs))))
     \<in> {[], [duplicateFunctionName], [missingAutoloadedFunctionName],
          [privateHelperFunction], [duplicateFunctionName, privateHelperFunction]}"
    by (rule collectFunctionNames_appended_codes)
  show "map code (appended [] (fst (snd (collectFunctionNames fish secondFoo plainDoc [] {''foo''}))))
       = [duplicateFunctionName, privateHelperFunction]"
    by (simp add: secondFoo_names appended_def createDiagnostic_def)
qed

theorem naming_codes_witness:
  "map code (appended [] (fst (snd (collectFunctionNames fish barName underFooDoc [] {}))))
     = [missingAutoloadedFunctionName]
   \<and> map code (appended [] (fst (snd (collectFunctionNames fish secondFoo plainDoc [] {''foo''}))))
       = [duplicateFunctionName, privateHelperFunction]"
  using naming_codes [of "[]" fish barName underFooDoc "{}"]
  by (simp add: barName_names appended_def createDiagnostic_def)

text \<open>
  C5 as the specification states it (every pair of the three codes can fire on one
  name) fails: no input makes \<open>missingAutoloadedFunctionName\<close> fire together with
  \<open>duplicateFunctionName\<close> or with \<open>privateHelperFunction\<close>.
\<close>

theorem naming_pairs_counterexample:
  "\<not> (\<exists>nt node doc ds fs.
        missingAutoloadedFunctionName
          \<in> set (map code (appended ds (fst (snd (collectFunctionNames nt node doc ds fs)))))
        \<and> (duplicateFunctionName
              \<in> set (map code (appended ds (fst (snd (collectFunctionNames nt node doc ds fs)))))
           \<or> privateHelperFunction
              \<in> set (map code (appended ds (fst (snd (collectFunctionNames nt node doc ds fs)))))))"
proof
  assume "\<exists>nt node doc ds fs.
        missingAutoloadedFunctionName
          \<in> set (map code (appended ds (fst (snd (collectFunctionNames nt node doc ds fs)))))
        \<and> (duplicateFunctionName
              \<in> set (map code (appended ds (fst (snd (collectFunctionNames nt node doc ds fs)))))
           \<or> privateHelperFunction
              \<in> set (map code (appended ds (fst (snd (collectFunctionNames nt node doc ds fs))))))"
  then obtain nt node doc ds fs cs
    where cs: "cs = map code (appended ds (fst (snd (collectFunctionNames nt node doc ds fs))))"
      and m: "missingAutoloadedFunctionName \<in> set cs"
      and o: "duplicateFunctionName \<in> set cs \<or> privateHelperFunction \<in> set cs"
    by blast
  have "cs \<in> {[], [duplicateFunctionName], [missingAutoloadedFunctionName],
          [privateHelperFunction], [duplicateFunctionName, privateHelperFunction]}"
    unfolding cs by (rule collectFunctionNames_appended_codes)
  with m o show False by auto
qed

section \<open>The variable rules\<close>

lemma collectVariableNames_appended_codes:
  "map code (appended ds (fst (snd (collectVariableNames nt node doc ds vs))))
     \<in> {[], [universalVariable], [pathVariable], [pathFlag]}"
  by (simp add: collectVariableNames_def getUniversalVariable_def getPathVariable_def Let_def
      appended_def createDiagnostic_def split: option.splits)

lemma universal_flag_wins:
  assumes "findVariableFlagsIfSeen nt node [''u''] [''universal''] = Some f"
  shows "collectVariableNames nt node doc ds vs
           = (True, ds @ [createDiagnostic f universalVariable (Some doc)],
              insert (node_text node) vs)"
proof -
  from assms have "isVariableDefinition nt node"
    by (simp add: findVariableFlagsIfSeen_def split: if_splits)
  with assms show ?thesis
    by (simp add: collectVariableNames_def getUniversalVariable_def)
qed

lemma myPath_nodes:
  "myPathName = SyntaxNode (Some (children (rootNode setUniversalPath) ! 0))
      [word ''set'', word ''--universal''] (word ''MYPATH'') [word ''/bin'']"
  "universalFlag = SyntaxNode (Some (children (rootNode setUniversalPath) ! 0))
      [word ''set''] (word ''--universal'') [word ''MYPATH'', word ''/bin'']"
  by (simp_all add: myPathName_def universalFlag_def setUniversalPath_def rootNode_def children_def)

lemma myPath_flag:
  "findVariableFlagsIfSeen fish myPathName [''u''] [''universal''] = Some universalFlag"
  by (simp add: findVariableFlagsIfSeen_def isUniveralOption_def fish_def isSetVariableName_def
      isCommand_def myPath_nodes precedingSiblings_def firstOf_def node_type_def node_text_def
      setUniversalPath_def rootNode_def children_def word_def)

lemma myPath_path:
  "findVariableFlagsIfSeen fish myPathName [] [''path'', ''unpath''] = None"
  "endsWith (node_text myPathName) ''PATH''"
  by (simp_all add: findVariableFlagsIfSeen_def isUniveralOption_def fish_def isSetVariableName_def
      isCommand_def myPath_nodes precedingSiblings_def firstOf_def node_type_def node_text_def
      setUniversalPath_def rootNode_def children_def word_def endsWith_def)

lemma collectVariableNames_exact:
  "collectVariableNames nt node doc ds vs =
     (if \<not> isVariableDefinition nt node then (False, ds, vs)
      else case findVariableFlagsIfSeen nt node [''u''] [''universal''] of
        Some f \<Rightarrow> (True, ds @ [createDiagnostic f universalVariable (Some doc)],
                   insert (node_text node) vs)
      | None \<Rightarrow>
          (case findVariableFlagsIfSeen nt node [] [''path'', ''unpath''] of
             None \<Rightarrow>
               if endsWith (node_text node) ''PATH''
               then (True, ds @ [createDiagnostic node pathVariable (Some doc)],
                     insert (node_text node) vs)
               else (False, ds, vs)
           | Some p \<Rightarrow>
               if endsWith (node_text node) ''PATH'' then (False, ds, vs)
               else (True, ds @ [createDiagnostic node pathFlag (Some doc)],
                     insert (node_text node) vs)))"
  by (simp add: collectVariableNames_def getUniversalVariable_def getPathVariable_def Let_def
      split: option.splits)

lemma path_flags:
  "isVariableDefinition fish myUnderPathName"
  "findVariableFlagsIfSeen fish myUnderPathName [''u''] [''universal''] = None"
  "findVariableFlagsIfSeen fish myUnderPathName [] [''path'', ''unpath''] = None"
  "endsWith (node_text myUnderPathName) ''PATH''"
  "node_text myUnderPathName = ''MY_PATH''"
  "isVariableDefinition fish otherName"
  "findVariableFlagsIfSeen fish otherName [''u''] [''universal''] = None"
  "findVariableFlagsIfSeen fish otherName [] [''path'', ''unpath''] = Some pathFlagToken"
  "\<not> endsWith (node_text otherName) ''PATH''"
  "node_text otherName = ''OTHER''"
  by (simp_all add: detector_defs myUnderPathName_def otherName_def pathFlagToken_def
      setMyPath_def setPathOther_def fish_eval)

text \<open>
  C7, as the code has it. For one variable-definition node \<open>collectVariableNames\<close>
  appends at most one diagnostic: nothing, \<open>universalVariable\<close>, \<open>pathVariable\<close> or
  \<open>pathFlag\<close>. Whenever the search for a universal flag finds a node, the one diagnostic
  is \<open>universalVariable\<close> anchored on that node and the path check does not run, so
  \<open>universalVariable\<close> never comes with a path diagnostic. Otherwise the diagnostic is
  \<open>pathVariable\<close> on the node when no path flag is found and the name ends with
  \<open>PATH\<close>, \<open>pathFlag\<close> on the node when a path flag is found and the name does not end
  with \<open>PATH\<close>, and nothing in the two remaining cases. A node that is not a variable
  definition gets nothing.
\<close>

theorem variable_codes:
  "collectVariableNames nt node doc ds vs =
     (if \<not> isVariableDefinition nt node then (False, ds, vs)
      else case findVariableFlagsIfSeen nt node [''u''] [''universal''] of
        Some f \<Rightarrow> (True, ds @ [createDiagnostic f universalVariable (Some doc)],
                   insert (node_text node) vs)
      | None \<Rightarrow>
          (case findVariableFlagsIfSeen nt node [] [''path'', ''unpath''] of
             None \<Rightarrow>
               if endsWith (node_text node) ''PATH''
               then (True, ds @ [createDiagnostic node pathVariable (Some doc)],
                     insert (node_text node) vs)
               else (False, ds, vs)
           | Some p \<Rightarrow>
               if endsWith (node_text node) ''PATH'' then (False, ds, vs)
               else (True, ds @ [createDiagnostic node pathFlag (Some doc)],
                     insert (node_text node) vs)))
   \<and> map code (appended ds (fst (snd (collectVariableNames nt node doc ds vs))))
       \<in> {[], [universalVariable], [pathVariable], [pathFlag]}
   \<and> (\<forall>f. findVariableFlagsIfSeen nt node [''u''] [''universal''] = Some f \<longrightarrow>
         appended ds (fst (snd (collectVariableNames nt node doc ds vs)))
           = [createDiagnostic f universalVariable (Some doc)])"
proof (intro conjI allI impI)
  show "collectVariableNames nt node doc ds vs =
     (if \<not> isVariableDefinition nt node then (False, ds, vs)
      else case findVariableFlagsIfSeen nt node [''u''] [''universal''] of
        Some f \<Rightarrow> (True, ds @ [createDiagnostic f universalVariable (Some doc)],
                   insert (node_text node) vs)
      | None \<Rightarrow>
          (case findVariableFlagsIfSeen nt node [] [''path'', ''unpath''] of
             None \<Rightarrow>
               if endsWith (node_text node) ''PATH''
               then (True, ds @ [createDiagnostic node pathVariable (Some doc)],
                     insert (node_text node) vs)
               else (False, ds, vs)
           | Some p \<Rightarrow>
               if endsWith (node_text node) ''PATH'' then (False, ds, vs)
               else (True, ds @ [createDiagnostic node pathFlag (Some doc)],
                     insert (node_text node) vs)))"
    by (rule collectVariableNames_exact)
next
  show "map code (appended ds (fst (snd (collectVariableNames nt node doc ds vs))))
     \<in> {[], [universalVariable], [pathVariable], [pathFlag]}"
    by (rule collectVariableNames_appended_codes)
next
  fix f
  assume "findVariableFlagsIfSeen nt node [''u''] [''universal''] = Some f"
  then show "appended ds (fst (snd (collectVariableNames nt node doc ds vs)))
           = [createDiagnostic f universalVariable (Some doc)]"
    by (simp add: universal_flag_wins appended_append)
qed

theorem variable_codes_witness:
  "findVariableFlagsIfSeen fish myPathName [''u''] [''universal''] = Some universalFlag
   \<and> findVariableFlagsIfSeen fish myPathName [] [''path'', ''unpath''] = None
   \<and> endsWith (node_text myPathName) ''PATH''
   \<and> appended [] (fst (snd (collectVariableNames fish myPathName plainDoc [] {})))
       = [createDiagnostic universalFlag universalVariable (Some plainDoc)]
   \<and> isVariableDefinition fish myUnderPathName
   \<and> findVariableFlagsIfSeen fish myUnderPathName [''u''] [''universal''] = None
   \<and> findVariableFlagsIfSeen fish myUnderPathName [] [''path'', ''unpath''] = None
   \<and> endsWith (node_text myUnderPathName) ''PATH''
   \<and> collectVariableNames fish myUnderPathName plainDoc [] {}
       = (True, [createDiagnostic myUnderPathName pathVariable (Some plainDoc)], {''MY_PATH''})
   \<and> isVariableDefinition fish otherName
   \<and> findVariableFlagsIfSeen fish otherName [''u''] [''universal''] = None
   \<and> findVariableFlagsIfSeen fish otherName [] [''path'', ''unpath''] = Some pathFlagToken
   \<and> \<not> endsWith (node_text otherName) ''PATH''
   \<and> collectVariableNames fish otherName plainDoc [] {}
       = (True, [createDiagnostic otherName pathFlag (Some plainDoc)], {''OTHER''})"
proof -
  have a: "appended [] (fst (snd (collectVariableNames fish myPathName plainDoc [] {})))
       = [createDiagnostic universalFlag universalVariable (Some plainDoc)]"
    using variable_codes [of fish myPathName plainDoc "[]" "{}", THEN conjunct2, THEN conjunct2,
        rule_format, OF myPath_flag] .
  have b: "collectVariableNames fish myUnderPathName plainDoc [] {}
       = (True, [createDiagnostic myUnderPathName pathVariable (Some plainDoc)], {''MY_PATH''})"
    using variable_codes [of fish myUnderPathName plainDoc "[]" "{}", THEN conjunct1]
    by (simp add: path_flags endsWith_def)
  have c: "collectVariableNames fish otherName plainDoc [] {}
       = (True, [createDiagnostic otherName pathFlag (Some plainDoc)], {''OTHER''})"
    using variable_codes [of fish otherName plainDoc "[]" "{}", THEN conjunct1]
    by (simp add: path_flags endsWith_def)
  show ?thesis
    by (intro conjI; (rule a b c myPath_flag myPath_path path_flags))
qed

text \<open>
  C7 as the specification states it (some variable definition gets both the
  \<open>universalVariable\<close> diagnostic and a path diagnostic) fails: no input does.
\<close>

theorem universal_with_path_counterexample:
  "\<not> (\<exists>nt node doc ds vs.
        universalVariable
          \<in> set (map code (appended ds (fst (snd (collectVariableNames nt node doc ds vs)))))
        \<and> (pathVariable
              \<in> set (map code (appended ds (fst (snd (collectVariableNames nt node doc ds vs)))))
           \<or> pathFlag
              \<in> set (map code (appended ds (fst (snd (collectVariableNames nt node doc ds vs)))))))"
proof
  assume "\<exists>nt node doc ds vs.
        universalVariable
          \<in> set (map code (appended ds (fst (snd (collectVariableNames nt node doc ds vs)))))
        \<and> (pathVariable
              \<in> set (map code (appended ds (fst (snd (collectVariableNames nt node doc ds vs)))))
           \<or> pathFlag
              \<in> set (map code (appended ds (fst (snd (collectVariableNames nt node doc ds vs))))))"
  then obtain nt node doc ds vs cs
    where cs: "cs = map code (appended ds (fst (snd (collectVariableNames nt node doc ds vs))))"
      and u: "universalVariable \<in> set cs"
      and o: "pathVariable \<in> set cs \<or> pathFlag \<in> set cs"
    by blast
  have "cs \<in> {[], [universalVariable], [pathVariable], [pathFlag]}"
    unfolding cs by (rule collectVariableNames_appended_codes)
  with u o show False by auto
qed

section \<open>The end-balance rules\<close>

lemma closingEnd_node:
  "closingEnd = SyntaxNode (Some (children (rootNode ifEnd) ! 0))
      (take 5 (tkids (tkids ifEnd ! 0))) (tok ''end'') []"
  by (simp add: closingEnd_def ifEnd_def rootNode_def children_def)

lemma extraEnd_iff:
  "extraEnd \<in> set (map code (appended ds (snd (collectEndError nt node ds))))
   \<longleftrightarrow> isCommandName nt node \<and> node_text node = ''end'' \<and> isMissingEnd nt node = None"
  by (auto simp: collectEndError_def isMissingEnd_def isExtraEnd_def isSyntaxError_def
      orElse_def Let_def appended_def createDiagnostic_def split: option.splits if_splits)

lemma block_child_not_command_name:
  assumes "up node = Some p" and "isStatement fish p \<or> isFunctionDefinition fish p"
  shows "\<not> isCommandName fish node"
proof -
  from assms(2) have "\<not> isCommand p"
    by (auto simp: fish_def isCommand_def)
  with assms(1) show ?thesis
    by (simp add: fish_def)
qed

lemma end_keyword_not_command_name: "isEnd fish node \<Longrightarrow> \<not> isCommandName fish node"
  by (simp add: fish_def split: option.splits)

text \<open>
  C9, as the code has it. \<open>collectEndError\<close> produces \<open>extraEnd\<close> exactly for a node that
  is a command name with the text \<open>end\<close> and on which \<open>missingEnd\<close> does not fire; it
  looks at nothing that encloses the node. With the node predicates of the fish
  grammar, it is therefore not produced for a node that is an \<open>end\<close> keyword, nor for a
  node that stands directly inside a block construct, that is whose parent is a
  statement or a function definition, as the \<open>end\<close> that closes the construct does.
\<close>

theorem closing_end_not_extra:
  "(extraEnd \<in> set (map code (appended ds (snd (collectEndError nt node ds))))
      \<longleftrightarrow> isCommandName nt node \<and> node_text node = ''end'' \<and> isMissingEnd nt node = None)
   \<and> (isEnd fish node
        \<or> (\<exists>p. up node = Some p \<and> (isStatement fish p \<or> isFunctionDefinition fish p))
      \<longrightarrow> isExtraEnd fish node = None
          \<and> extraEnd \<notin> set (map code (appended ds (snd (collectEndError fish node ds)))))"
proof (intro conjI impI)
  show "extraEnd \<in> set (map code (appended ds (snd (collectEndError nt node ds))))
      \<longleftrightarrow> isCommandName nt node \<and> node_text node = ''end'' \<and> isMissingEnd nt node = None"
    by (rule extraEnd_iff)
next
  assume "isEnd fish node
        \<or> (\<exists>p. up node = Some p \<and> (isStatement fish p \<or> isFunctionDefinition fish p))"
  then have n: "\<not> isCommandName fish node"
    using block_child_not_command_name end_keyword_not_command_name by blast
  then show "isExtraEnd fish node = None"
    by (simp add: isExtraEnd_def)
  from n show "extraEnd \<notin> set (map code (appended ds (snd (collectEndError fish node ds))))"
    using extraEnd_iff [of ds fish node] by blast
qed

theorem closing_end_not_extra_witness:
  "isEnd fish closingEnd
   \<and> up closingEnd = Some (children (rootNode ifEnd) ! 0)
   \<and> isStatement fish (children (rootNode ifEnd) ! 0)
   \<and> node_text closingEnd = ''end''
   \<and> isExtraEnd fish closingEnd = None
   \<and> extraEnd \<notin> set (map code (appended [] (snd (collectEndError fish closingEnd []))))"
  using closing_end_not_extra [of "[]" fish closingEnd]
  by (simp add: closingEnd_node fish_def node_type_def node_text_def ifEnd_def rootNode_def
      children_def tok_def)

text \<open>
  C9 as the specification states it (no \<open>extraEnd\<close> for a terminator keyword that lies
  inside a block construct) fails on \<open>if true; and end; end\<close>: the word \<open>end\<close> after
  \<open>and\<close> is the name of a command inside the if statement, and it gets \<open>extraEnd\<close>.
\<close>

theorem end_inside_block_counterexample:
  "node_text nestedEnd = ''end''
   \<and> nestedIf \<in> set (ancestors nestedEnd)
   \<and> isStatement fish nestedIf
   \<and> collectEndError fish nestedEnd [] = (True, [createDiagnostic nestedEnd extraEnd None])
   \<and> createDiagnostic nestedEnd extraEnd None
       \<in> set (collectDiagnosticsRecursive fish (rootNode nestedEndProgram) plainDoc)"
  by (simp add: detector_defs nestedEnd_def nestedIf_def nestedEndProgram_def plainDoc_def
      fish_eval)

section \<open>Where the code departs from its documentation\<close>

text \<open>
  C1. The doc comment of \<open>completeStatementCoverage\<close> says that it checks that the
  statement block returns on every path. On
  \<open>function f; if true; return 0; end; if false; echo hi; end; end\<close> the first if
  statement has no else clause, yet \<open>completeStatementCoverage\<close> answers \<open>true\<close> for it,
  and \<open>collectFunctionsScopes\<close> reports the second if statement as unreachable.
\<close>

theorem if_without_else_judged_exhaustive:
  "node_type ifReturnNode = ''if_statement''
   \<and> list_all (\<lambda>c. node_type c \<noteq> ''else_clause'') (children ifReturnNode)
   \<and> fst (completeStatementCoverage fish ifReturnNode [])
   \<and> collectFunctionsScopes fish (rootNode funIfReturn) plainDoc []
       = (True, [createDiagnostic ifEchoNode unreachableCode (Some plainDoc)])"
  by (simp add: collectFunctionsScopes_def createDiagnostic_def ifReturnNode_def ifEchoNode_def
      funIfReturn_def ifReturn_def ifEcho_def fish_eval)

lemma autoload_only_on_empty_set:
  "missingAutoloadedFunctionName
     \<in> set (map code (appended ds (fst (snd (collectFunctionNames nt node doc ds fs)))))
   \<longleftrightarrow> isFunctionDefinitionName nt node \<and> isAutoLoaded doc
       \<and> node_text node \<noteq> getAutoLoadName doc \<and> fs = {}"
  by (auto simp: collectFunctionNames_def Let_def appended_def createDiagnostic_def)

lemma silent_name_not_added:
  assumes "isFunctionDefinitionName nt node" and "startsWith (node_text node) ''_''"
    and "node_text node \<notin> fs"
    and "\<not> (isAutoLoaded doc \<and> node_text node \<noteq> getAutoLoadName doc \<and> fs = {})"
  shows "collectFunctionNames nt node doc ds fs = (False, ds, fs)"
  using assms by (auto simp: collectFunctionNames_def Let_def)

text \<open>
  C4. The doc comment of \<open>collectFunctionNames\<close> says that it checks the first function
  of an autoloaded file. In the file that autoloads \<open>_foo\<close>, on
  \<open>function _foo; end; function bar; end\<close>, the first name \<open>_foo\<close> raises nothing and
  is not added to \<open>functionNames\<close>, so the set is still empty at the second name \<open>bar\<close>,
  and the one \<open>missingAutoloadedFunctionName\<close> of the pass is anchored on \<open>bar\<close>.
\<close>

theorem autoload_diagnostic_on_second_name:
  "isFunctionDefinitionName fish underFooName \<and> isFunctionDefinitionName fish barName
   \<and> collectFunctionNames fish underFooName underFooDoc [] {} = (False, [], {})
   \<and> filter (\<lambda>d. code d = missingAutoloadedFunctionName)
         (collectDiagnosticsRecursive fish (rootNode underFooBar) underFooDoc)
       = [createDiagnostic barName missingAutoloadedFunctionName None]"
  by (simp add: detector_defs underFooName_def barName_def underFooBar_def underFooDoc_def
      fish_eval)

text \<open>
  C6. \<open>collectFunctionNames\<close> adds the name inside each of its three diagnostic
  branches only. A name that starts with an underscore and raises no diagnostic is not
  added: after the call on \<open>_foo\<close> of \<open>function _foo; end\<close> the set does not hold
  \<open>_foo\<close>, and the pass over \<open>function _foo; end; function _foo; end\<close> reports no
  \<open>duplicateFunctionName\<close>, against the first case of the function's doc comment.
\<close>

theorem underscore_name_not_recorded:
  "isFunctionDefinitionName fish underFooName \<and> node_text underFooName = ''_foo''
   \<and> node_text underFooName \<notin> snd (snd (collectFunctionNames fish underFooName plainDoc [] {}))
   \<and> snd (snd (collectAllDiagnostics fish (rootNode twoUnderFoo) plainDoc [] {} {})) = ({}, {})
   \<and> duplicateFunctionName
       \<notin> set (map code (collectDiagnosticsRecursive fish (rootNode twoUnderFoo) plainDoc))"
  by (simp add: detector_defs underFooName_def underFooBar_def twoUnderFoo_def plainDoc_def
      fish_eval)

text \<open>
  C8. \<open>getUniversalVariable\<close> searches with the short option \<open>u\<close>, and
  \<open>"-U".includes("u")\<close> is false. On \<open>set -U MYVAR 1\<close> the variable detector reports
  nothing for \<open>MYVAR\<close> and the pass holds no \<open>universalVariable\<close> diagnostic; on
  \<open>set -u MYVAR 1\<close>, which erases the export flag, it reports \<open>universalVariable\<close> on
  the \<open>-u\<close> token.
\<close>

theorem upper_U_flag_not_reported:
  "isVariableDefinition fish upperUName \<and> node_text upperUFlag = ''-U''
   \<and> \<not> isUniveralOption [''u''] [''universal''] upperUFlag
   \<and> collectVariableNames fish upperUName plainDoc [] {} = (False, [], {})
   \<and> universalVariable
       \<notin> set (map code (collectDiagnosticsRecursive fish (rootNode setUpperU) plainDoc))
   \<and> collectVariableNames fish lowerUName plainDoc [] {}
       = (True, [createDiagnostic lowerUFlag universalVariable (Some plainDoc)], {''MYVAR''})"
  by (simp add: detector_defs upperUName_def upperUFlag_def setUpperU_def lowerUName_def
      lowerUFlag_def setLowerU_def plainDoc_def fish_eval)

end
